theory Spec2Isabelle
  imports Main "HOL-Library.AList"
begin

section \<open>Data model: coordinates, annotations, selections\<close>

text \<open>
  A coordinate is a position inside a text property: the property's path and a
  character offset. JavaScript numbers are modelled as \<open>int\<close>: the offsets are
  integers, and the arithmetic done on them (difference, \<open>Math.max\<close>,
  \<open>Math.min\<close>) is exact on integers.
\<close>

type_synonym path = "string list"

record coordinate =
  path :: path
  offset :: int

datatype prop_value =
    StringVal string
  | ArrayVal "string list"

text \<open>
  A property annotation as \<open>PropertyAnnotation.define\<close> declares it: an id, a type,
  the two coordinates \<open>start\<close> and \<open>end\<close>, and whatever further properties a subtype
  adds (\<open>anno_props\<close>).
\<close>

record annotation =
  anno_id :: string
  anno_type :: string
  anno_start :: coordinate
  anno_end :: coordinate
  anno_props :: "(string \<times> prop_value) list"

text \<open>
  A fragment of a container selection, as \<open>_copyContainerSelection\<close> reads it:
  \<open>fragment.type\<close> is \<open>'selection-fragment'\<close> for a partial text fragment, which has
  \<open>startOffset\<close> and \<open>endOffset\<close>; any other fragment is a whole-node fragment.
\<close>

datatype fragment =
    NodeFragment path
  | SelectionFragment path int int

datatype node_mode = Full | Before | After

text \<open>
  Modelled from the spec: the Selection classes are not among the source files. The spec
  (section 3) gives the tagged union: null, property \<open>{path, startOffset, endOffset,
  surfaceId}\<close>, container \<open>{containerId, startPath, startOffset, endPath, endOffset,
  surfaceId}\<close>, node \<open>{containerId, nodeId, mode, surfaceId}\<close>. The container selection
  also carries the list its \<open>getFragments()\<close> returns. \<open>CustomSelection\<close> stands for
  every other selection kind; it carries what \<open>isCollapsed()\<close> answers for it.
\<close>

datatype selection =
    NullSelection
  | PropertySelection path int int "string option"
  | ContainerSelection string path int path int "fragment list" "string option"
  | NodeSelection string string node_mode "string option"
  | CustomSelection bool "string option"

fun isNull :: "selection \<Rightarrow> bool" where
  "isNull NullSelection = True"
| "isNull _ = False"

fun isPropertySelection :: "selection \<Rightarrow> bool" where
  "isPropertySelection (PropertySelection p s e sf) = True"
| "isPropertySelection _ = False"

fun isContainerSelection :: "selection \<Rightarrow> bool" where
  "isContainerSelection (ContainerSelection c sp s ep e fs sf) = True"
| "isContainerSelection _ = False"

fun isNodeSelection :: "selection \<Rightarrow> bool" where
  "isNodeSelection (NodeSelection c n m sf) = True"
| "isNodeSelection _ = False"

text \<open>
  Modelled from the spec: \<open>isCollapsed()\<close> is a method of the absent Selection classes.
  The spec: a range with \<open>start == end\<close> is collapsed (empty). A node selection spans
  its node when its mode is the whole node, and is a cursor before or after it otherwise.
  A null selection selects nothing; \<open>copySelection\<close> never asks it (short-circuit).
\<close>

fun isCollapsed :: "selection \<Rightarrow> bool" where
  "isCollapsed NullSelection = True"
| "isCollapsed (PropertySelection p s e sf) = (s = e)"
| "isCollapsed (ContainerSelection c sp s ep e fs sf) = (sp = ep \<and> s = e)"
| "isCollapsed (NodeSelection c n m sf) = (m \<noteq> Full)"
| "isCollapsed (CustomSelection b sf) = b"

text \<open>\<open>sel.start\<close> and \<open>sel.end\<close> of a selection that has coordinates.\<close>

fun sel_start :: "selection \<Rightarrow> coordinate option" where
  "sel_start (PropertySelection p s e sf) = Some \<lparr>path = p, offset = s\<rparr>"
| "sel_start (ContainerSelection c sp s ep e fs sf) = Some \<lparr>path = sp, offset = s\<rparr>"
| "sel_start _ = None"

fun sel_end :: "selection \<Rightarrow> coordinate option" where
  "sel_end (PropertySelection p s e sf) = Some \<lparr>path = p, offset = e\<rparr>"
| "sel_end (ContainerSelection c sp s ep e fs sf) = Some \<lparr>path = ep, offset = e\<rparr>"
| "sel_end _ = None"

datatype error = Error string | TypeError | RangeError

text \<open>What a call leaves behind besides its result: console output, a new snippet.\<close>

datatype effect = ConsoleError string | ConsoleWarn string | CreateSnippet

section \<open>PropertyAnnotation\<close>

text \<open>
  Modelled from the spec: \<open>util/isArrayEqual\<close> is not among the source files; the spec
  calls it an element-wise array comparison.
\<close>

fun isArrayEqual :: "'a list \<Rightarrow> 'a list \<Rightarrow> bool" where
  "isArrayEqual [] [] = True"
| "isArrayEqual (x # xs) (y # ys) = (x = y \<and> isArrayEqual xs ys)"
| "isArrayEqual _ _ = False"

text \<open>
  \<open>tx.set(path, value)\<close> is recorded: the transaction is the list of the writes made,
  oldest first.
\<close>

datatype set_value = PathValue path | NumValue int

type_synonym tx = "(path \<times> set_value) list"

definition tx_set :: "tx \<Rightarrow> path \<Rightarrow> set_value \<Rightarrow> tx" where
  "tx_set t p v = t @ [(p, v)]"

text \<open>
  \<open>_updateRange(tx, sel)\<close>. A selection without coordinates that passed the first test
  cannot exist (only property selections pass); the branch is a \<open>TypeError\<close>, as
  reading \<open>sel.start.path\<close> of such an object would be.
\<close>

definition updateRange :: "annotation \<Rightarrow> tx \<Rightarrow> selection \<Rightarrow> error + tx" where
  "updateRange this t sel =
     (if \<not> isPropertySelection sel then
        Inl (Error ''Invalid argument: PropertyAnnotation._updateRange() requires a PropertySelection.'')
      else
        (case (sel_start sel, sel_end sel) of
           (Some st, Some en) \<Rightarrow>
             (let t1 = (if \<not> isArrayEqual (path (anno_start this)) (path st)
                        then tx_set t [anno_id this, ''path''] (PathValue (path st)) else t);
                  t2 = (if offset (anno_start this) \<noteq> offset st
                        then tx_set t1 [anno_id this, ''start'', ''offset''] (NumValue (offset st)) else t1);
                  t3 = (if offset (anno_end this) \<noteq> offset en
                        then tx_set t2 [anno_id this, ''end'', ''offset''] (NumValue (offset en)) else t2)
              in Inr t3)
         | _ \<Rightarrow> Inl TypeError))"

text \<open>
  \<open>isInsideOf(sel, _strict)\<close> returns a boolean, or nothing at all (\<open>undefined\<close>) after
  the warning of its last branch.
\<close>

datatype js_result = JSBool bool | JSUndefined

fun truthy :: "js_result \<Rightarrow> bool" where
  "truthy (JSBool b) = b"
| "truthy JSUndefined = False"

definition isInsideOf :: "annotation \<Rightarrow> selection \<Rightarrow> bool \<Rightarrow> (error + js_result \<times> effect list)" where
  "isInsideOf this sel strict =
     (if isNull sel then Inr (JSBool False, [])
      else if isPropertySelection sel then
        (case (sel_start sel, sel_end sel) of
           (Some st, Some en) \<Rightarrow>
             (if strict then
                Inr (JSBool (isArrayEqual (path (anno_start this)) (path st) \<and>
                       offset (anno_start this) > offset st \<and>
                       offset (anno_end this) < offset en), [])
              else
                Inr (JSBool (isArrayEqual (path (anno_start this)) (path st) \<and>
                       offset (anno_start this) \<ge> offset st \<and>
                       offset (anno_end this) \<le> offset en), []))
         | _ \<Rightarrow> Inl TypeError)
      else Inr (JSUndefined,
             [ConsoleWarn ''PropertyAnnotation.isInsideOf() does not support other selection types.'']))"

section \<open>XNode: children of a DOM node\<close>

text \<open>
  The DOM tree is a store of nodes addressed by references; \<open>children.indexOf(before)\<close>
  compares references. Of a node, the model keeps what \<open>insertBefore\<close> reads and
  writes: its type, its \<open>children\<close> array (absent for some types), its \<open>parent\<close>
  and its \<open>ownerDocument\<close>.
\<close>

datatype element_type = Tag | Text | Comment | CDATA | Directive | DocumentNode | OtherType string

type_synonym ref = nat

record xnode =
  xtype :: element_type
  children :: "ref list option"
  parent :: "ref option"
  ownerDocument :: "ref option"

type_synonym store = "ref \<Rightarrow> xnode"

text \<open>
  The constructor's \<open>switch(type)\<close>, as far as \<open>children\<close> goes: a tag, a document
  and the default case get \<open>args.children || []\<close>; a text, comment, CDATA or directive
  node gets no \<open>children\<close> at all.
\<close>

fun hasChildrenArray :: "element_type \<Rightarrow> bool" where
  "hasChildrenArray Text = False"
| "hasChildrenArray Comment = False"
| "hasChildrenArray CDATA = False"
| "hasChildrenArray Directive = False"
| "hasChildrenArray _ = True"

definition XNode_new :: "element_type \<Rightarrow> ref list option \<Rightarrow> ref option \<Rightarrow> xnode" where
  "XNode_new ty argsChildren ownerDoc =
     \<lparr>xtype = ty,
      children = (if hasChildrenArray ty
                  then Some (case argsChildren of None \<Rightarrow> [] | Some cs \<Rightarrow> cs) else None),
      parent = None,
      ownerDocument = ownerDoc\<rparr>"

text \<open>\<open>Array.prototype.indexOf\<close>: the first position of the element, or \<open>-1\<close>.\<close>

fun indexOf :: "'a list \<Rightarrow> 'a \<Rightarrow> int" where
  "indexOf [] x = -1"
| "indexOf (y # ys) x = (if y = x then 0 else (let i = indexOf ys x in if i > -1 then i + 1 else -1))"

definition getOwnerDocument :: "store \<Rightarrow> ref \<Rightarrow> ref option" where
  "getOwnerDocument st this =
     (if xtype (st this) = DocumentNode then Some this else ownerDocument (st this))"

text \<open>
  \<open>insertBefore(newChild, before)\<close>. \<open>DomUtils.prepend\<close> belongs to the vendored DOM
  library, which is not among the source files: it is the parameter \<open>prepend\<close>, a
  function on the store. \<open>_onAttach\<close> has an empty body in this class. The method
  returns \<open>this\<close>; the model returns the store it leaves.
\<close>

definition insertBefore ::
  "(store \<Rightarrow> ref \<Rightarrow> ref \<Rightarrow> store) \<Rightarrow> store \<Rightarrow> ref \<Rightarrow> ref \<Rightarrow> ref \<Rightarrow> error + store" where
  "insertBefore prepend st this newChild before =
     (case children (st this) of
        Some cs \<Rightarrow>
          (let pos = indexOf cs before in
           if pos > -1 then
             (let st1 = prepend st before newChild;
                  st2 = st1(newChild := (st1 newChild)\<lparr>ownerDocument := getOwnerDocument st1 this\<rparr>)
              in Inr st2)
           else Inl (Error ''insertBefore(): reference node is not a child of this element.''))
      | None \<Rightarrow> Inr st)"

section \<open>Documents, the annotation index, snippets\<close>

text \<open>
  A node's JSON (\<open>toJSON()\<close>, the argument of \<open>create\<close>): an annotation, or any other
  node with its id, its type and its properties.
\<close>

record node =
  node_id :: string
  node_type :: string
  node_props :: "(string \<times> prop_value) list"

datatype node_data = NodeData node | AnnoData annotation

fun data_id :: "node_data \<Rightarrow> string" where
  "data_id (NodeData n) = node_id n"
| "data_id (AnnoData a) = anno_id a"

fun data_type :: "node_data \<Rightarrow> string" where
  "data_type (NodeData n) = node_type n"
| "data_type (AnnoData a) = anno_type a"

fun data_props :: "node_data \<Rightarrow> (string \<times> prop_value) list" where
  "data_props (NodeData n) = node_props n"
| "data_props (AnnoData a) = anno_props a"

text \<open>
  Schema reflection: a property descriptor with what \<open>_copyNode\<close> asks of it
  (\<open>name\<close>, \<open>type\<close>, \<open>isArray()\<close>, \<open>isReference()\<close>, \<open>owner\<close>).
\<close>

record property =
  prop_name :: string
  prop_type :: string
  prop_isArray :: bool
  prop_isReference :: bool
  prop_owner :: bool

text \<open>
  A document: the nodes in the order of their creation, the ids its container shows,
  the schema (the property descriptors of every node type, and the default text type).
  \<open>Document.TEXT_SNIPPET_ID\<close> is a constant of the Document class, whose file is not
  among the sources: the document carries it.
\<close>

record document =
  nodes :: "node_data list"
  container :: "string list"
  schema :: "string \<Rightarrow> property list"
  defaultTextType :: string
  TEXT_SNIPPET_ID :: string

text \<open>
  Modelled from the spec: the Document class is not among the source files. The spec
  (section 6): \<open>get(path)\<close> gives a node or a property value, \<open>createSnippet()\<close> a new
  empty document with a container. \<open>docGet\<close> is \<open>get\<close> of an id, \<open>getText\<close> is
  \<open>get\<close> of the path of a text property; a path that does not lead to a string makes
  the caller's \<open>text.substring\<close> or \<open>text.length\<close> a \<open>TypeError\<close>. \<open>create\<close> adds a
  node, \<open>container_show\<close> is the container's \<open>show(id)\<close>.
\<close>

definition docGet :: "document \<Rightarrow> string \<Rightarrow> node_data option" where
  "docGet doc i = find (\<lambda>x. data_id x = i) (nodes doc)"

definition getText :: "document \<Rightarrow> path \<Rightarrow> error + string" where
  "getText doc p =
     (case p of
        [i, k] \<Rightarrow>
          (case docGet doc i of
             Some n \<Rightarrow> (case map_of (data_props n) k of Some (StringVal s) \<Rightarrow> Inr s | _ \<Rightarrow> Inl TypeError)
           | None \<Rightarrow> Inl TypeError)
      | _ \<Rightarrow> Inl TypeError)"

definition createSnippet :: "document \<Rightarrow> document" where
  "createSnippet doc = doc\<lparr>nodes := [], container := []\<rparr>"

definition create :: "document \<Rightarrow> node_data \<Rightarrow> document" where
  "create doc nd = doc\<lparr>nodes := nodes doc @ [nd]\<rparr>"

definition container_show :: "document \<Rightarrow> string \<Rightarrow> document" where
  "container_show doc i = doc\<lparr>container := container doc @ [i]\<rparr>"

fun annotations :: "node_data list \<Rightarrow> annotation list" where
  "annotations [] = []"
| "annotations (NodeData n # xs) = annotations xs"
| "annotations (AnnoData a # xs) = a # annotations xs"

text \<open>
  Modelled from the spec: the annotation index is not among the source files. The spec
  (section 4.1): \<open>get(path)\<close> gives all annotations on that path, \<open>get([nodeId])\<close> all
  annotations whose path begins with \<open>nodeId\<close>, and \<open>get(path, startOffset, endOffset)\<close>
  those overlapping the window: \<open>annotation.start.offset < endOffset\<close> and
  \<open>annotation.end.offset > startOffset\<close>; on a collapsed window, any annotation covering
  that offset.
\<close>

definition onPath :: "path \<Rightarrow> annotation \<Rightarrow> bool" where
  "onPath p a =
     (case p of
        [nodeId] \<Rightarrow> (case path (anno_start a) of [] \<Rightarrow> False | x # _ \<Rightarrow> x = nodeId)
      | _ \<Rightarrow> path (anno_start a) = p)"

definition overlaps :: "int \<Rightarrow> int \<Rightarrow> annotation \<Rightarrow> bool" where
  "overlaps s e a =
     (if s = e then offset (anno_start a) \<le> s \<and> s \<le> offset (anno_end a)
      else offset (anno_start a) < e \<and> offset (anno_end a) > s)"

definition index_get :: "document \<Rightarrow> path \<Rightarrow> (int \<times> int) option \<Rightarrow> annotation list" where
  "index_get doc p window =
     filter (\<lambda>a. onPath p a \<and> (case window of None \<Rightarrow> True | Some (s, e) \<Rightarrow> overlaps s e a))
       (annotations (nodes doc))"

section \<open>copySelection\<close>

text \<open>
  \<open>String.prototype.substring(a, b)\<close>: both indices are clamped into \<open>[0, length]\<close>
  and swapped when the first is the larger.
\<close>

definition substring :: "string \<Rightarrow> int \<Rightarrow> int \<Rightarrow> string" where
  "substring str a b =
     (let L = int (length str);
          a' = max 0 (min a L);
          b' = max 0 (min b L);
          lo = min a' b';
          hi = max a' b'
      in take (nat (hi - lo)) (drop (nat lo) str))"

text \<open>The annotation data that \<open>_copyPropertySelection\<close> creates for \<open>anno\<close>.\<close>

definition retarget :: "document \<Rightarrow> int \<Rightarrow> int \<Rightarrow> annotation \<Rightarrow> annotation" where
  "retarget doc off endOffset anno =
     anno\<lparr>anno_start := \<lparr>path = [TEXT_SNIPPET_ID doc, ''content''],
                          offset = max off (offset (anno_start anno)) - off\<rparr>,
          anno_end := \<lparr>path = [TEXT_SNIPPET_ID doc, ''content''],
                        offset = min endOffset (offset (anno_end anno)) - off\<rparr>\<rparr>"

definition copyPropertySelection :: "document \<Rightarrow> selection \<Rightarrow> error + document" where
  "copyPropertySelection doc sel =
     (case (sel_start sel, sel_end sel) of
        (Some st, Some en) \<Rightarrow>
          (let p = path st; off = offset st; endOffset = offset en in
           case getText doc p of
             Inl err \<Rightarrow> Inl err
           | Inr text \<Rightarrow>
               (let snippet = createSnippet doc;
                    snippet1 = create snippet (NodeData
                      \<lparr>node_id = TEXT_SNIPPET_ID doc,
                       node_type = defaultTextType doc,
                       node_props = [(''content'', StringVal (substring text off endOffset))]\<rparr>);
                    snippet2 = container_show snippet1 (TEXT_SNIPPET_ID doc);
                    annos = index_get doc p (Some (off, endOffset))
                in Inr (fold (\<lambda>anno s. create s (AnnoData (retarget doc off endOffset anno)))
                          annos snippet2)))
      | _ \<Rightarrow> Inl TypeError)"

subsection \<open>The transitive copy of a node\<close>

text \<open>
  \<open>_copyNode(node)\<close> calls itself on every node that an owning reference (or a file
  reference) of \<open>node\<close> names, with nothing of its own that bounds the depth. It is
  therefore a partial function: \<open>None\<close> is a recursion without end, \<open>Some (Inl err)\<close> a
  call that throws, \<open>Some (Inr nodes)\<close> one that returns the array \<open>nodes\<close>.

  \<open>cascaded\<close> is the test of the \<open>forEach\<close> over the schema. \<open>refTargets\<close> reads
  \<open>node[prop.name]\<close>: the ids of an array property (\<open>val.forEach\<close>), the one id
  otherwise; a value that is not of the shape the schema announces, or is missing, is
  taken as the \<open>TypeError\<close> that follows from it. \<open>copyRefs\<close> is the loop over these
  ids, \<open>copyProps\<close> the loop over the property descriptors; both take the recursive
  call as their first argument and \<open>nodes\<close>, as collected so far, as their last.
\<close>

type_synonym copy_result = "(error + node_data list) option"

definition cascaded :: "property \<Rightarrow> bool" where
  "cascaded pr \<longleftrightarrow> (prop_isReference pr \<and> prop_owner pr) \<or> prop_type pr = ''file''"

definition refTargets :: "node_data \<Rightarrow> property \<Rightarrow> error + string list" where
  "refTargets n pr =
     (case map_of (data_props n) (prop_name pr) of
        Some (ArrayVal ids) \<Rightarrow> (if prop_isArray pr then Inr ids else Inl TypeError)
      | Some (StringVal i) \<Rightarrow> (if prop_isArray pr then Inl TypeError else Inr [i])
      | None \<Rightarrow> Inl TypeError)"

fun copyRefs ::
  "(node_data \<Rightarrow> copy_result) \<Rightarrow> document \<Rightarrow> string list \<Rightarrow> node_data list \<Rightarrow> copy_result" where
  "copyRefs rec doc [] acc = Some (Inr acc)"
| "copyRefs rec doc (i # ids) acc =
     (case docGet doc i of
        None \<Rightarrow> Some (Inl TypeError)
      | Some n \<Rightarrow>
          Option.bind (rec n) (\<lambda>r. case r of
             Inl err \<Rightarrow> Some (Inl err)
           | Inr ns \<Rightarrow> copyRefs rec doc ids (acc @ ns)))"

fun copyProps ::
  "(node_data \<Rightarrow> copy_result) \<Rightarrow> document \<Rightarrow> node_data \<Rightarrow> property list \<Rightarrow> node_data list
     \<Rightarrow> copy_result" where
  "copyProps rec doc n [] acc = Some (Inr acc)"
| "copyProps rec doc n (pr # prs) acc =
     (if cascaded pr then
        (case refTargets n pr of
           Inl err \<Rightarrow> Some (Inl err)
         | Inr ids \<Rightarrow>
             Option.bind (copyRefs rec doc ids acc) (\<lambda>r. case r of
                Inl err \<Rightarrow> Some (Inl err)
              | Inr acc' \<Rightarrow> copyProps rec doc n prs acc'))
      else copyProps rec doc n prs acc)"

text \<open>Both loops are monotone in the recursive call, which the definition below needs.\<close>

lemma copyRefs_mono [partial_function_mono]:
  assumes "\<And>n. mono_option (\<lambda>f. rec f n)"
  shows "mono_option (\<lambda>f. copyRefs (rec f) doc ids acc)"
proof (induction ids arbitrary: acc)
  case Nil
  show ?case by (simp add: option.const_mono)
next
  case (Cons i ids)
  show ?case
  proof (cases "docGet doc i")
    case None
    then show ?thesis by (simp add: option.const_mono)
  next
    case (Some n)
    have step: "mono_option (\<lambda>f. case r of Inl err \<Rightarrow> Some (Inl err)
                  | Inr ns \<Rightarrow> copyRefs (rec f) doc ids (acc @ ns))" for r
      by (cases r) (simp_all add: option.const_mono Cons.IH)
    show ?thesis
      unfolding copyRefs.simps Some option.case
      by (rule bind_mono [OF assms step])
  qed
qed

lemma copyProps_mono [partial_function_mono]:
  assumes "\<And>n. mono_option (\<lambda>f. rec f n)"
  shows "mono_option (\<lambda>f. copyProps (rec f) doc x prs acc)"
proof (induction prs arbitrary: acc)
  case Nil
  show ?case by (simp add: option.const_mono)
next
  case (Cons pr prs)
  show ?case
  proof (cases "cascaded pr")
    case False
    then show ?thesis by (simp add: Cons.IH)
  next
    case True
    show ?thesis
    proof (cases "refTargets x pr")
      case (Inl err)
      with True show ?thesis by (simp add: option.const_mono)
    next
      case (Inr ids)
      have step: "mono_option (\<lambda>f. case r of Inl err \<Rightarrow> Some (Inl err)
                    | Inr acc' \<Rightarrow> copyProps (rec f) doc x prs acc')" for r
        by (cases r) (simp_all add: option.const_mono Cons.IH)
      have "mono_option (\<lambda>f. Option.bind (copyRefs (rec f) doc ids acc) (\<lambda>r. case r of
                Inl err \<Rightarrow> Some (Inl err)
              | Inr acc' \<Rightarrow> copyProps (rec f) doc x prs acc'))"
        by (rule bind_mono [OF copyRefs_mono [OF assms] step])
      with True Inr show ?thesis by simp
    qed
  qed
qed

partial_function (option) copyNode :: "document \<Rightarrow> node_data \<Rightarrow> (error + node_data list) option" where
  "copyNode doc n =
     Option.bind (copyProps (\<lambda>m. copyNode doc m) doc n (schema doc (data_type n)) []) (\<lambda>r. case r of
        Inl err \<Rightarrow> Some (Inl err)
      | Inr ns \<Rightarrow> Some (Inr (ns @ [n] @ map AnnoData (index_get doc [data_id n] None))))"


subsection \<open>Container and node selections\<close>

fun fragment_path :: "fragment \<Rightarrow> path" where
  "fragment_path (NodeFragment p) = p"
| "fragment_path (SelectionFragment p s e) = p"

fun getFragments :: "selection \<Rightarrow> fragment list" where
  "getFragments (ContainerSelection c sp s ep e fs sf) = fs"
| "getFragments _ = []"

text \<open>
  The \<open>for\<close> loop of \<open>_copyContainerSelection\<close>: \<open>created\<close> holds the ids of the nodes
  created so far, \<open>snippet\<close> is the snippet as it stands. A fragment with an empty path
  has no \<open>path[0]\<close>, and \<open>_copyNode\<close> of no node is a \<open>TypeError\<close>.
\<close>

fun copyFragments ::
  "document \<Rightarrow> fragment list \<Rightarrow> string list \<Rightarrow> document \<Rightarrow> (error + document) option" where
  "copyFragments doc [] created snippet = Some (Inr snippet)"
| "copyFragments doc (fragment # rest) created snippet =
     (case fragment_path fragment of
        [] \<Rightarrow> Some (Inl TypeError)
      | nodeId # _ \<Rightarrow>
          if nodeId \<in> set created then copyFragments doc rest created snippet
          else
            (case docGet doc nodeId of
               None \<Rightarrow> Some (Inl TypeError)
             | Some node \<Rightarrow>
                 Option.bind (copyNode doc node) (\<lambda>r. case r of
                    Inl err \<Rightarrow> Some (Inl err)
                  | Inr nodeDatas \<Rightarrow>
                      copyFragments doc rest (created @ map data_id nodeDatas)
                        (container_show (fold (\<lambda>nodeData s. create s nodeData) nodeDatas snippet)
                           nodeId))))"

text \<open>
  Modelled from the spec: \<open>snippet.update(path, {type: 'delete', start, end})\<close> belongs to
  the absent Document class, \<open>annotationHelpers.deletedText\<close> to an absent module. The
  spec (section 4.3): the range is deleted from the text node, and the same deletion is
  propagated to any annotation on that property. What becomes of one annotation under
  the deletion of \<open>[start, end)\<close> the spec does not say: it is the parameter \<open>adjust\<close>
  (\<open>None\<close> for an annotation that is removed).
\<close>

definition deleteRange :: "string \<Rightarrow> int \<Rightarrow> int \<Rightarrow> string" where
  "deleteRange str a b = take (nat a) str @ drop (nat (max a b)) str"

fun set_prop :: "string \<Rightarrow> prop_value \<Rightarrow> node_data \<Rightarrow> node_data" where
  "set_prop k v (NodeData n) = NodeData (n\<lparr>node_props := AList.update k v (node_props n)\<rparr>)"
| "set_prop k v (AnnoData a) = AnnoData (a\<lparr>anno_props := AList.update k v (anno_props a)\<rparr>)"

definition update_delete :: "document \<Rightarrow> path \<Rightarrow> int \<Rightarrow> int \<Rightarrow> error + document" where
  "update_delete doc p a b =
     (case getText doc p of
        Inl err \<Rightarrow> Inl err
      | Inr str \<Rightarrow>
          Inr (doc\<lparr>nodes := map (\<lambda>x. if data_id x = hd p
                                     then set_prop (p ! 1) (StringVal (deleteRange str a b)) x else x)
                               (nodes doc)\<rparr>))"

fun adjustAll :: "(int \<Rightarrow> int \<Rightarrow> annotation \<Rightarrow> annotation option) \<Rightarrow> path \<Rightarrow> int \<Rightarrow> int
    \<Rightarrow> node_data list \<Rightarrow> node_data list" where
  "adjustAll adjust p a b [] = []"
| "adjustAll adjust p a b (NodeData n # xs) = NodeData n # adjustAll adjust p a b xs"
| "adjustAll adjust p a b (AnnoData an # xs) =
     (if path (anno_start an) = p
      then (case adjust a b an of
              None \<Rightarrow> adjustAll adjust p a b xs
            | Some an' \<Rightarrow> AnnoData an' # adjustAll adjust p a b xs)
      else AnnoData an # adjustAll adjust p a b xs)"

definition deletedText ::
  "(int \<Rightarrow> int \<Rightarrow> annotation \<Rightarrow> annotation option) \<Rightarrow> document \<Rightarrow> path \<Rightarrow> int \<Rightarrow> int \<Rightarrow> document" where
  "deletedText adjust doc p a b = doc\<lparr>nodes := adjustAll adjust p a b (nodes doc)\<rparr>"

text \<open>
  The two trimming steps of \<open>_copyContainerSelection\<close>. The second one takes
  \<open>text.length\<close> from the source document (\<open>doc.get(path)\<close>) and applies the deletion
  to the snippet.
\<close>

definition trimFirst ::
  "(int \<Rightarrow> int \<Rightarrow> annotation \<Rightarrow> annotation option) \<Rightarrow> document \<Rightarrow> fragment \<Rightarrow> error + document" where
  "trimFirst adjust snippet firstFragment =
     (case firstFragment of
        SelectionFragment p startOffset endOffset \<Rightarrow>
          (case update_delete snippet p 0 startOffset of
             Inl err \<Rightarrow> Inl err
           | Inr snippet1 \<Rightarrow> Inr (deletedText adjust snippet1 p 0 startOffset))
      | NodeFragment p \<Rightarrow> Inr snippet)"

definition trimLast ::
  "(int \<Rightarrow> int \<Rightarrow> annotation \<Rightarrow> annotation option) \<Rightarrow> document \<Rightarrow> document \<Rightarrow> fragment
     \<Rightarrow> error + document" where
  "trimLast adjust doc snippet lastFragment =
     (case lastFragment of
        SelectionFragment p startOffset endOffset \<Rightarrow>
          (case getText doc p of
             Inl err \<Rightarrow> Inl err
           | Inr text \<Rightarrow>
               (case update_delete snippet p endOffset (int (length text)) of
                  Inl err \<Rightarrow> Inl err
                | Inr snippet1 \<Rightarrow> Inr (deletedText adjust snippet1 p endOffset (int (length text)))))
      | NodeFragment p \<Rightarrow> Inr snippet)"

definition copyContainerSelection ::
  "(int \<Rightarrow> int \<Rightarrow> annotation \<Rightarrow> annotation option) \<Rightarrow> document \<Rightarrow> selection
     \<Rightarrow> (error + document) option" where
  "copyContainerSelection adjust doc sel =
     (let snippet = createSnippet doc;
          fragments = getFragments sel
      in if length fragments = 0 then Some (Inr snippet)
         else
           Option.bind (copyFragments doc fragments [] snippet) (\<lambda>r. case r of
              Inl err \<Rightarrow> Some (Inl err)
            | Inr snippet1 \<Rightarrow>
                (case trimFirst adjust snippet1 (hd fragments) of
                   Inl err \<Rightarrow> Some (Inl err)
                 | Inr snippet2 \<Rightarrow> Some (trimLast adjust doc snippet2 (last fragments)))))"

definition copyNodeSelection :: "document \<Rightarrow> selection \<Rightarrow> (error + document) option" where
  "copyNodeSelection doc sel =
     (case sel of
        NodeSelection c nodeId m sf \<Rightarrow>
          (case docGet doc nodeId of
             None \<Rightarrow> Some (Inl TypeError)
           | Some node \<Rightarrow>
               Option.bind (copyNode doc node) (\<lambda>r. case r of
                  Inl err \<Rightarrow> Some (Inl err)
                | Inr nodeDatas \<Rightarrow>
                    Some (Inr (container_show
                      (fold (\<lambda>nodeData s. create s nodeData) nodeDatas (createSnippet doc))
                      (data_id node)))))
      | _ \<Rightarrow> Some (Inl TypeError))"

subsection \<open>The entry point\<close>

text \<open>
  \<open>copySelection(doc, selection)\<close>. The argument is \<open>None\<close> when the caller passes
  nothing (\<open>undefined\<close>, \<open>null\<close>). A result \<open>Some (Inr (copy, effects))\<close> is a return:
  \<open>copy\<close> is \<open>None\<close> for JavaScript's \<open>null\<close>, and \<open>effects\<close> lists the console output
  and the snippet created on the way.
\<close>

definition returned :: "(error + document) option \<Rightarrow> (error + document option \<times> effect list) option" where
  "returned r = map_option (map_sum id (\<lambda>snippet. (Some snippet, [CreateSnippet]))) r"

definition copySelection ::
  "(int \<Rightarrow> int \<Rightarrow> annotation \<Rightarrow> annotation option) \<Rightarrow> document \<Rightarrow> selection option
     \<Rightarrow> (error + document option \<times> effect list) option" where
  "copySelection adjust doc selection =
     (case selection of
        None \<Rightarrow> Some (Inl (Error (CHR 0x27 # ''selection'' @ CHR 0x27 # '' is mandatory.'')))
      | Some sel \<Rightarrow>
          if \<not> isNull sel \<and> \<not> isCollapsed sel then
            (if isPropertySelection sel then returned (Some (copyPropertySelection doc sel))
             else if isContainerSelection sel then returned (copyContainerSelection adjust doc sel)
             else if isNodeSelection sel then returned (copyNodeSelection doc sel)
             else Some (Inr (None, [ConsoleError ''Copy is not yet supported for selection type.''])))
          else Some (Inr (None, [])))"

section \<open>The state of isolated regions\<close>

text \<open>
  Modelled from the spec: the component that derives a region's mode from the selection
  is not among the source files; only its tests are (\<open>IsolatedNode\<close>, in
  \<open>src/unnamed/part_000\<close>). The definitions follow section 4.4 of the spec.

  A region is identified by a slash-delimited path of surface identifiers; \<open>tokenize\<close>
  splits it on the delimiter, as \<open>String.prototype.split\<close> does. The owning surface of
  a selection is the \<open>surfaceId\<close> of a property, container or node selection; a null
  selection and any other kind have none (step 1 of the decision procedure).
\<close>

fun splitOn :: "char \<Rightarrow> string \<Rightarrow> string list" where
  "splitOn c [] = [[]]"
| "splitOn c (x # xs) =
     (if x = c then [] # splitOn c xs
      else (case splitOn c xs of [] \<Rightarrow> [[x]] | t # ts \<Rightarrow> (x # t) # ts))"

definition tokenize :: "string \<Rightarrow> string list" where
  "tokenize s = splitOn (CHR ''/'') s"

fun surfaceId :: "selection \<Rightarrow> string option" where
  "surfaceId NullSelection = None"
| "surfaceId (PropertySelection p s e sf) = sf"
| "surfaceId (ContainerSelection c sp s ep e fs sf) = sf"
| "surfaceId (NodeSelection c n m sf) = sf"
| "surfaceId (CustomSelection b sf) = None"

datatype region_mode = NotSelected | Selected | CoSelected | Focused | CoFocused

text \<open>
  The five modes, in the words of section 4.4, on token sequences (\<open>r\<close> the region's,
  \<open>s\<close> the owning surface's):
  \<^item> focused: the owning surface path is exactly this region's path, or a leaf surface
    directly inside it. Step 3 of the decision procedure names the first case only; the
    second is in the definition of the mode, and the tests need it (a selection owned by
    \<open>body/c1/c1\<close> focuses \<open>body/c1\<close>).
  \<^item> co-focused: the region's tokens are a strict prefix of the owning surface's, by
    tokens, and the region is not focused.
  \<^item> selected: a node selection whose target is exactly this region, mode full. The
    target of a node selection on surface \<open>s\<close> is the region \<open>s/nodeId\<close>.
  \<^item> co-selected: a container selection; the region's node id (its last token) is
    among the node ids the selection covers, the region is not the one that owns the
    selection, and co-selection does not reach the descendants of a spanned region: the
    region lies directly in the owning surface. The covered node ids come from the
    Selection collaborator: they are the parameter \<open>covered\<close>.
  \<^item> not-selected otherwise (the mode is omitted).
\<close>

definition isFocused :: "string list \<Rightarrow> string list \<Rightarrow> bool" where
  "isFocused r s \<longleftrightarrow> r = s \<or> (s \<noteq> [] \<and> butlast s = r)"

definition isStrictPrefix :: "string list \<Rightarrow> string list \<Rightarrow> bool" where
  "isStrictPrefix r s \<longleftrightarrow> length r < length s \<and> take (length r) s = r"

fun isSelectedBy :: "selection \<Rightarrow> string list \<Rightarrow> string list \<Rightarrow> bool" where
  "isSelectedBy (NodeSelection c nodeId m sf) r s = (m = Full \<and> r = s @ [nodeId])"
| "isSelectedBy _ r s = False"

definition isCoSelectedBy :: "string list \<Rightarrow> selection \<Rightarrow> string list \<Rightarrow> string list \<Rightarrow> bool" where
  "isCoSelectedBy covered sel r s \<longleftrightarrow>
     isContainerSelection sel \<and> r \<noteq> [] \<and> last r \<in> set covered \<and> r \<noteq> s \<and> butlast r = s"

definition regionMode :: "string list \<Rightarrow> selection \<Rightarrow> string \<Rightarrow> region_mode" where
  "regionMode covered sel region =
     (case surfaceId sel of
        None \<Rightarrow> NotSelected
      | Some surface \<Rightarrow>
          (let r = tokenize region; s = tokenize surface in
           if isFocused r s then Focused
           else if isStrictPrefix r s then CoFocused
           else if isSelectedBy sel r s then Selected
           else if isCoSelectedBy covered sel r s then CoSelected
           else NotSelected))"

text \<open>The resolver: the mode of every region of the render tree, by region path.\<close>

definition resolveRegions :: "string list \<Rightarrow> selection \<Rightarrow> string list \<Rightarrow> (string \<times> region_mode) list" where
  "resolveRegions covered sel regions = map (\<lambda>region. (region, regionMode covered sel region)) regions"

section \<open>Owning references that form a tree\<close>




section \<open>Example documents\<close>

text \<open>
  A schema with a paragraph (one text property), a caption (one text property) and a
  figure that owns its caption.
\<close>

definition exampleSchema :: "string \<Rightarrow> property list" where
  "exampleSchema ty =
     (if ty = ''paragraph'' \<or> ty = ''caption'' then
        [\<lparr>prop_name = ''content'', prop_type = ''text'', prop_isArray = False,
          prop_isReference = False, prop_owner = False\<rparr>]
      else if ty = ''figure'' then
        [\<lparr>prop_name = ''caption'', prop_type = ''id'', prop_isArray = False,
          prop_isReference = True, prop_owner = True\<rparr>]
      else [])"

definition textNode :: "string \<Rightarrow> string \<Rightarrow> node_data" where
  "textNode i str =
     NodeData \<lparr>node_id = i, node_type = ''paragraph'', node_props = [(''content'', StringVal str)]\<rparr>"

definition strong :: "string \<Rightarrow> path \<Rightarrow> int \<Rightarrow> int \<Rightarrow> annotation" where
  "strong i p s e =
     \<lparr>anno_id = i, anno_type = ''strong'',
      anno_start = \<lparr>path = p, offset = s\<rparr>, anno_end = \<lparr>path = p, offset = e\<rparr>,
      anno_props = []\<rparr>"

text \<open>A paragraph \<open>p1\<close> with the text \<open>abcdefgh\<close>, and no annotation.\<close>

definition paragraphDoc :: document where
  "paragraphDoc =
     \<lparr>nodes = [textNode ''p1'' ''abcdefgh''],
      container = [''p1''], schema = exampleSchema,
      defaultTextType = ''paragraph'', TEXT_SNIPPET_ID = ''text-snippet''\<rparr>"

text \<open>Two paragraphs, \<open>p1\<close> and \<open>p2\<close>.\<close>

definition twoParagraphs :: document where
  "twoParagraphs =
     \<lparr>nodes = [textNode ''p1'' ''abcdefgh'', textNode ''p2'' ''ijklmnop''],
      container = [''p1'', ''p2''], schema = exampleSchema,
      defaultTextType = ''paragraph'', TEXT_SNIPPET_ID = ''text-snippet''\<rparr>"

text \<open>
  The paragraph with two annotations: \<open>s1\<close> on \<open>[3, 6)\<close> and \<open>s2\<close> on \<open>[6, 8)\<close>.
\<close>

definition annotatedDoc :: document where
  "annotatedDoc =
     \<lparr>nodes = [textNode ''p1'' ''abcdefgh'',
               AnnoData (strong ''s1'' [''p1'', ''content''] 3 6),
               AnnoData (strong ''s2'' [''p1'', ''content''] 6 8)],
      container = [''p1''], schema = exampleSchema,
      defaultTextType = ''paragraph'', TEXT_SNIPPET_ID = ''text-snippet''\<rparr>"

text \<open>A figure \<open>f1\<close> that owns the caption \<open>c1\<close>, which carries the annotation \<open>s1\<close>.\<close>

definition figureNode :: node_data where
  "figureNode = NodeData \<lparr>node_id = ''f1'', node_type = ''figure'',
                         node_props = [(''caption'', StringVal ''c1'')]\<rparr>"

definition captionNode :: node_data where
  "captionNode = NodeData \<lparr>node_id = ''c1'', node_type = ''caption'',
                          node_props = [(''content'', StringVal ''A figure'')]\<rparr>"

definition figureDoc :: document where
  "figureDoc =
     \<lparr>nodes = [figureNode, captionNode, AnnoData (strong ''s1'' [''c1'', ''content''] 2 8)],
      container = [''f1''], schema = exampleSchema,
      defaultTextType = ''paragraph'', TEXT_SNIPPET_ID = ''text-snippet''\<rparr>"




text \<open>
  A DOM store: node 0 is a document with the one child 1, node 1 is a tag with the one
  child 2, node 2 is a text node, every other reference is a tag without children.
\<close>

definition sampleStore :: store where
  "sampleStore r =
     (if r = 0 then XNode_new DocumentNode (Some [1]) None
      else if r = 1 then (XNode_new Tag (Some [2]) (Some 0))\<lparr>parent := Some 0\<rparr>
      else if r = 2 then (XNode_new Text None (Some 0))\<lparr>parent := Some 1\<rparr>
      else XNode_new Tag None (Some 0))"

section \<open>Facts about PropertyAnnotation\<close>

lemma isArrayEqual_iff: "isArrayEqual xs ys \<longleftrightarrow> xs = ys"
  by (induction xs ys rule: isArrayEqual.induct) auto

text \<open>
  Claim C8. For every annotation and every property selection, \<open>_updateRange\<close> returns
  normally and appends to the transaction exactly the writes of the components that
  differ, in this order: the path iff the selection's path is not, element by element,
  the annotation's; the start offset iff it differs; the end offset iff it differs. A
  component that is unchanged is not written.
\<close>

theorem updateRange_writes_only_changes:
  "updateRange a t (PropertySelection p s e sf) =
     Inr (t @
       (if path (anno_start a) = p then [] else [([anno_id a, ''path''], PathValue p)]) @
       (if offset (anno_start a) = s then []
        else [([anno_id a, ''start'', ''offset''], NumValue s)]) @
       (if offset (anno_end a) = e then []
        else [([anno_id a, ''end'', ''offset''], NumValue e)]))"
  by (simp add: updateRange_def tx_set_def isArrayEqual_iff)

text \<open>
  Claim C7. \<open>isInsideOf\<close> returns \<open>false\<close> for a null selection. For a property
  selection it returns whether the annotation's path is the selection's path and the
  annotation's offsets lie inside the selection's: strictly when \<open>strict\<close>, inclusively
  otherwise. For any other selection it throws nothing: it warns on the console and
  returns \<open>undefined\<close>, which is not truthy (no containment).
\<close>

theorem isInsideOf_contract:
  "isInsideOf a NullSelection strict = Inr (JSBool False, []) \<and>
   isInsideOf a (PropertySelection p s e sf) strict =
     Inr (JSBool (path (anno_start a) = p \<and>
            (if strict then s < offset (anno_start a) \<and> offset (anno_end a) < e
             else s \<le> offset (anno_start a) \<and> offset (anno_end a) \<le> e)), []) \<and>
   (\<not> isNull sel \<and> \<not> isPropertySelection sel \<longrightarrow>
      (\<exists>w. isInsideOf a sel strict = Inr (JSUndefined, [ConsoleWarn w])) \<and>
      (\<forall>r log. isInsideOf a sel strict = Inr (r, log) \<longrightarrow> \<not> truthy r))"
  by (auto simp add: isInsideOf_def isArrayEqual_iff)

text \<open>
  The annotation \<open>s1\<close> on \<open>[3, 6)\<close> of \<open>p1\<close>: a node selection is neither null nor a
  property selection, and gets the warning; the property selection \<open>[3, 6)\<close> contains
  the annotation inclusively and not strictly; \<open>[2, 7)\<close> contains it strictly.
\<close>

theorem isInsideOf_contract_witness:
  "\<not> isNull (NodeSelection ''body'' ''p1'' Full (Some ''body'')) \<and>
   \<not> isPropertySelection (NodeSelection ''body'' ''p1'' Full (Some ''body'')) \<and>
   isInsideOf (strong ''s1'' [''p1'', ''content''] 3 6)
       (NodeSelection ''body'' ''p1'' Full (Some ''body'')) True
     = Inr (JSUndefined,
         [ConsoleWarn ''PropertyAnnotation.isInsideOf() does not support other selection types.'']) \<and>
   isInsideOf (strong ''s1'' [''p1'', ''content''] 3 6)
       (PropertySelection [''p1'', ''content''] 3 6 (Some ''body'')) False
     = Inr (JSBool True, []) \<and>
   isInsideOf (strong ''s1'' [''p1'', ''content''] 3 6)
       (PropertySelection [''p1'', ''content''] 3 6 (Some ''body'')) True
     = Inr (JSBool False, []) \<and>
   isInsideOf (strong ''s1'' [''p1'', ''content''] 3 6)
       (PropertySelection [''p1'', ''content''] 2 7 (Some ''body'')) True
     = Inr (JSBool True, [])"
proof -
  let ?a = "strong ''s1'' [''p1'', ''content''] 3 6"
  let ?node = "NodeSelection ''body'' ''p1'' Full (Some ''body'')"
  have other: "\<not> isNull ?node \<and> \<not> isPropertySelection ?node"
    by simp
  have warn: "isInsideOf ?a ?node True
     = Inr (JSUndefined,
         [ConsoleWarn ''PropertyAnnotation.isInsideOf() does not support other selection types.''])"
    using isInsideOf_contract [of ?a True "[''p1'', ''content'']" 3 6 "Some ''body''" ?node] other
    by (auto simp add: isInsideOf_def)
  have incl: "isInsideOf ?a (PropertySelection [''p1'', ''content''] 3 6 (Some ''body'')) False
     = Inr (JSBool True, [])"
    using isInsideOf_contract [of ?a False "[''p1'', ''content'']" 3 6 "Some ''body''" ?node]
    by (simp add: strong_def)
  have strict: "isInsideOf ?a (PropertySelection [''p1'', ''content''] 3 6 (Some ''body'')) True
     = Inr (JSBool False, [])"
    using isInsideOf_contract [of ?a True "[''p1'', ''content'']" 3 6 "Some ''body''" ?node]
    by (simp add: strong_def)
  have wide: "isInsideOf ?a (PropertySelection [''p1'', ''content''] 2 7 (Some ''body'')) True
     = Inr (JSBool True, [])"
    using isInsideOf_contract [of ?a True "[''p1'', ''content'']" 2 7 "Some ''body''" ?node]
    by (simp add: strong_def)
  from other warn incl strict wide show ?thesis by blast
qed

section \<open>Facts about XNode\<close>

lemma indexOf_member: "indexOf cs x > -1 \<longleftrightarrow> x \<in> set cs"
  by (induction cs) (auto simp add: Let_def)

text \<open>
  Claim C5, as the code has it. \<open>_updateRange\<close> throws its invalid-argument error for
  every selection that is not a property selection. \<open>insertBefore\<close> throws for every
  reference that is not among the children of a node that has a \<open>children\<close> array (a
  tag, a document, a node of any other type but text, comment, CDATA and directive). On
  a node that has no \<open>children\<close> array it does nothing and returns.
\<close>

theorem contract_violations_throw:
  "(\<not> isPropertySelection sel \<longrightarrow>
      updateRange a t sel =
        Inl (Error ''Invalid argument: PropertyAnnotation._updateRange() requires a PropertySelection.'')) \<and>
   (children (st this) = Some cs \<and> before \<notin> set cs \<longrightarrow>
      insertBefore prepend st this newChild before =
        Inl (Error ''insertBefore(): reference node is not a child of this element.'')) \<and>
   (children (st this) = None \<longrightarrow> insertBefore prepend st this newChild before = Inr st)"
  by (simp add: updateRange_def insertBefore_def indexOf_member)

text \<open>
  A container selection given to \<open>_updateRange\<close>; node 3, which is not a child of
  the tag 1 (its children are \<open>[2]\<close>), given to \<open>insertBefore\<close> as the reference; and
  the same call on the text node 2.
\<close>

theorem contract_violations_throw_witness:
  "\<not> isPropertySelection
       (ContainerSelection ''body'' [''p1'', ''content''] 1 [''p2'', ''content''] 2 [] (Some ''body'')) \<and>
   updateRange (strong ''s1'' [''p1'', ''content''] 3 6) []
       (ContainerSelection ''body'' [''p1'', ''content''] 1 [''p2'', ''content''] 2 [] (Some ''body''))
     = Inl (Error ''Invalid argument: PropertyAnnotation._updateRange() requires a PropertySelection.'') \<and>
   children (sampleStore 1) = Some [2] \<and> 3 \<notin> set [2::nat] \<and>
   insertBefore (\<lambda>st before newChild. st) sampleStore 1 4 3
     = Inl (Error ''insertBefore(): reference node is not a child of this element.'') \<and>
   children (sampleStore 2) = None \<and>
   insertBefore (\<lambda>st before newChild. st) sampleStore 2 4 3 = Inr sampleStore"
proof -
  have ch: "children (sampleStore 1) = Some [2]"
    by (simp add: sampleStore_def XNode_new_def)
  have none: "children (sampleStore 2) = None"
    by (simp add: sampleStore_def XNode_new_def)
  show ?thesis
    using contract_violations_throw
      [of "ContainerSelection ''body'' [''p1'', ''content''] 1 [''p2'', ''content''] 2 [] (Some ''body'')"
          "strong ''s1'' [''p1'', ''content''] 3 6" "[]" sampleStore 1 "[2]" 3
          "\<lambda>st before newChild. st" 4]
      contract_violations_throw
      [of "ContainerSelection ''body'' [''p1'', ''content''] 1 [''p2'', ''content''] 2 [] (Some ''body'')"
          "strong ''s1'' [''p1'', ''content''] 3 6" "[]" sampleStore 2 "[2]" 3
          "\<lambda>st before newChild. st" 4]
      ch none
    by simp
qed

text \<open>
  Claim C5, as stated, fails on a node without a \<open>children\<close> array. Node 2 of the
  store is a text node: no node is its child, and \<open>insertBefore\<close> on it, with node 3 as
  the reference, returns without an error and leaves the store as it was, whatever
  \<open>DomUtils.prepend\<close> would do.
\<close>

theorem insertBefore_text_node_silent:
  "xtype (sampleStore 2) = Text \<and> children (sampleStore 2) = None \<and>
   (\<forall>prepend. insertBefore prepend sampleStore 2 4 3 = Inr sampleStore)"
  by (simp add: insertBefore_def sampleStore_def XNode_new_def)

section \<open>Facts about copySelection\<close>

subsection \<open>Null, collapsed and unsupported selections\<close>

text \<open>
  Claim C10. Without a selection argument \<open>copySelection\<close> throws the error
  \<open>'selection' is mandatory.\<close>; for every selection that is null or collapsed it
  returns \<open>null\<close> and has no effect: no snippet is created, nothing is logged. (The
  source document is a value of the model and is only read.)
\<close>

theorem copySelection_null_or_collapsed:
  "copySelection adjust doc None =
     Some (Inl (Error (CHR 0x27 # ''selection'' @ CHR 0x27 # '' is mandatory.''))) \<and>
   (isNull sel \<or> isCollapsed sel \<longrightarrow> copySelection adjust doc (Some sel) = Some (Inr (None, [])))"
  by (auto simp add: copySelection_def)

text \<open>The null selection, and a property selection collapsed at offset 3.\<close>

theorem copySelection_null_or_collapsed_witness:
  "isNull NullSelection \<and>
   copySelection (\<lambda>a b an. Some an) annotatedDoc (Some NullSelection) = Some (Inr (None, [])) \<and>
   isCollapsed (PropertySelection [''p1'', ''content''] 3 3 (Some ''body'')) \<and>
   copySelection (\<lambda>a b an. Some an) annotatedDoc
       (Some (PropertySelection [''p1'', ''content''] 3 3 (Some ''body''))) = Some (Inr (None, []))"
  using copySelection_null_or_collapsed [of "\<lambda>a b an. Some an" annotatedDoc NullSelection]
    copySelection_null_or_collapsed [of "\<lambda>a b an. Some an" annotatedDoc
      "PropertySelection [''p1'', ''content''] 3 3 (Some ''body'')"]
  by simp

text \<open>
  Claim C6. For every selection that is not null, not collapsed and of none of the three
  supported kinds, \<open>copySelection\<close> returns \<open>null\<close>: it throws nothing, creates no
  snippet, and reports the unsupported kind on the console.
\<close>

theorem copySelection_unsupported:
  "\<not> isNull sel \<Longrightarrow> \<not> isCollapsed sel \<Longrightarrow> \<not> isPropertySelection sel \<Longrightarrow>
   \<not> isContainerSelection sel \<Longrightarrow> \<not> isNodeSelection sel \<Longrightarrow>
   copySelection adjust doc (Some sel) =
     Some (Inr (None, [ConsoleError ''Copy is not yet supported for selection type.'']))"
  by (simp add: copySelection_def)

text \<open>A selection of another kind that is not collapsed.\<close>

theorem copySelection_unsupported_witness:
  "\<not> isNull (CustomSelection False (Some ''body'')) \<and>
   \<not> isCollapsed (CustomSelection False (Some ''body'')) \<and>
   \<not> isPropertySelection (CustomSelection False (Some ''body'')) \<and>
   \<not> isContainerSelection (CustomSelection False (Some ''body'')) \<and>
   \<not> isNodeSelection (CustomSelection False (Some ''body'')) \<and>
   copySelection (\<lambda>a b an. Some an) annotatedDoc (Some (CustomSelection False (Some ''body''))) =
     Some (Inr (None, [ConsoleError ''Copy is not yet supported for selection type.'']))"
  using copySelection_unsupported [of "CustomSelection False (Some ''body'')"
      "\<lambda>a b an. Some an" annotatedDoc]
  by simp

subsection \<open>Property selections\<close>

lemma fold_create:
  "fold (\<lambda>x s. create s (f x)) xs d = d\<lparr>nodes := nodes d @ map f xs\<rparr>"
  by (induction xs arbitrary: d) (simp_all add: create_def)

lemma substring_inside:
  assumes "0 \<le> s" and "s \<le> e" and "e \<le> int (length str)"
  shows "substring str s e = take (nat (e - s)) (drop (nat s) str)"
  using assms by (simp add: substring_def Let_def min_def max_def)

lemma length_substring_inside:
  assumes "0 \<le> s" and "s \<le> e" and "e \<le> int (length str)"
  shows "length (take (nat (e - s)) (drop (nat s) str)) = nat (e - s)"
  using assms by simp

lemma getText_path2: "getText doc p = Inr str \<Longrightarrow> \<exists>i k. p = [i, k]"
  by (auto simp add: getText_def split: list.splits)

lemma onPath_path2: "onPath [i, k] a \<longleftrightarrow> path (anno_start a) = [i, k]"
  by (simp add: onPath_def)

lemma retarget_clamp:
  "retarget doc s e a =
     a\<lparr>anno_start := \<lparr>path = [TEXT_SNIPPET_ID doc, ''content''],
                       offset = max 0 (offset (anno_start a) - s)\<rparr>,
       anno_end := \<lparr>path = [TEXT_SNIPPET_ID doc, ''content''],
                     offset = min (e - s) (offset (anno_end a) - s)\<rparr>\<rparr>"
  by (simp add: retarget_def min_def max_def)

text \<open>
  Claim C2. Let \<open>[s, e)\<close> be a non-collapsed property selection on a text property
  \<open>p\<close> of the document, whose text is \<open>str\<close> (so \<open>0 \<le> s < e \<le> length str\<close>). Then
  \<open>copySelection\<close> returns a snippet whose nodes are, in this order: one text node,
  with the snippet id and the default text type, holding the substring \<open>[s, e)\<close> of
  \<open>str\<close>, of length \<open>e - s\<close>; and, for every annotation of the document on \<open>p\<close> that
  overlaps \<open>[s, e)\<close> (it starts before \<open>e\<close> and ends after \<open>s\<close>), that annotation
  with both coordinates on the path of the new node, the start offset
  \<open>max 0 (start - s)\<close> and the end offset \<open>min (e - s) (end - s)\<close>. No other
  annotation is in the snippet. The snippet's container shows the text node.
\<close>

theorem copySelection_property:
  assumes "getText doc p = Inr str" and "0 \<le> s" and "s < e" and "e \<le> int (length str)"
  shows "\<exists>snippet.
     copySelection adjust doc (Some (PropertySelection p s e sf))
       = Some (Inr (Some snippet, [CreateSnippet])) \<and>
     nodes snippet =
       NodeData \<lparr>node_id = TEXT_SNIPPET_ID doc, node_type = defaultTextType doc,
                 node_props = [(''content'', StringVal (take (nat (e - s)) (drop (nat s) str)))]\<rparr> #
       map (\<lambda>a. AnnoData
                  (a\<lparr>anno_start := \<lparr>path = [TEXT_SNIPPET_ID doc, ''content''],
                                    offset = max 0 (offset (anno_start a) - s)\<rparr>,
                     anno_end := \<lparr>path = [TEXT_SNIPPET_ID doc, ''content''],
                                  offset = min (e - s) (offset (anno_end a) - s)\<rparr>\<rparr>))
         (filter (\<lambda>a. path (anno_start a) = p \<and> offset (anno_start a) < e \<and> s < offset (anno_end a))
            (annotations (nodes doc))) \<and>
     container snippet = [TEXT_SNIPPET_ID doc] \<and>
     length (take (nat (e - s)) (drop (nat s) str)) = nat (e - s)"
proof -
  let ?textNode = "NodeData \<lparr>node_id = TEXT_SNIPPET_ID doc, node_type = defaultTextType doc,
      node_props = [(''content'', StringVal (take (nat (e - s)) (drop (nat s) str)))]\<rparr>"
  let ?shown = "container_show (create (createSnippet doc) ?textNode) (TEXT_SNIPPET_ID doc)"
  obtain i k where p: "p = [i, k]"
    using getText_path2 [OF assms(1)] by blast
  have sub: "substring str s e = take (nat (e - s)) (drop (nat s) str)"
    using assms by (simp add: substring_inside)
  have idx: "index_get doc p (Some (s, e)) =
      filter (\<lambda>a. path (anno_start a) = p \<and> offset (anno_start a) < e \<and> s < offset (anno_end a))
        (annotations (nodes doc))"
    using assms(3) by (simp add: index_get_def p onPath_path2 overlaps_def)
  have len: "length (take (nat (e - s)) (drop (nat s) str)) = nat (e - s)"
    using assms by (simp add: length_substring_inside)
  have cp: "copyPropertySelection doc (PropertySelection p s e sf) =
      Inr (?shown\<lparr>nodes := nodes ?shown @
             map (\<lambda>a. AnnoData (retarget doc s e a)) (index_get doc p (Some (s, e)))\<rparr>)"
    by (simp add: copyPropertySelection_def assms(1) sub fold_create Let_def)
  have sel: "copySelection adjust doc (Some (PropertySelection p s e sf)) =
      returned (Some (copyPropertySelection doc (PropertySelection p s e sf)))"
    using assms(3) by (simp add: copySelection_def)
  show ?thesis
    unfolding sel cp returned_def
    using len by (simp add: idx retarget_clamp create_def createSnippet_def container_show_def)
qed

text \<open>
  The selection \<open>[2, 5)\<close> of \<open>abcdefgh\<close>: the copy holds \<open>cde\<close>; the annotation
  \<open>s1\<close> on \<open>[3, 6)\<close> is clipped to \<open>[1, 3)\<close>, the annotation \<open>s2\<close> on \<open>[6, 8)\<close> is
  left out.
\<close>

theorem copySelection_property_witness:
  "getText annotatedDoc [''p1'', ''content''] = Inr ''abcdefgh'' \<and>
   (0::int) \<le> 2 \<and> (2::int) < 5 \<and> 5 \<le> int (length ''abcdefgh'') \<and>
   (\<exists>snippet.
      copySelection (\<lambda>a b an. Some an) annotatedDoc
          (Some (PropertySelection [''p1'', ''content''] 2 5 (Some ''body'')))
        = Some (Inr (Some snippet, [CreateSnippet])) \<and>
      nodes snippet =
        [NodeData \<lparr>node_id = ''text-snippet'', node_type = ''paragraph'',
                   node_props = [(''content'', StringVal ''cde'')]\<rparr>,
         AnnoData (strong ''s1'' [''text-snippet'', ''content''] 1 3)] \<and>
      container snippet = [''text-snippet''])"
proof -
  have src: "getText annotatedDoc [''p1'', ''content''] = Inr ''abcdefgh''"
    by (simp add: getText_def docGet_def annotatedDoc_def textNode_def)
  have len: "5 \<le> int (length ''abcdefgh'')"
    by simp
  obtain snippet where
    ret: "copySelection (\<lambda>a b an. Some an) annotatedDoc
            (Some (PropertySelection [''p1'', ''content''] 2 5 (Some ''body'')))
          = Some (Inr (Some snippet, [CreateSnippet]))"
    and ns: "nodes snippet =
       NodeData \<lparr>node_id = TEXT_SNIPPET_ID annotatedDoc, node_type = defaultTextType annotatedDoc,
                 node_props = [(''content'', StringVal (take (nat (5 - 2)) (drop (nat 2) ''abcdefgh'')))]\<rparr> #
       map (\<lambda>a. AnnoData
                  (a\<lparr>anno_start := \<lparr>path = [TEXT_SNIPPET_ID annotatedDoc, ''content''],
                                    offset = max 0 (offset (anno_start a) - 2)\<rparr>,
                     anno_end := \<lparr>path = [TEXT_SNIPPET_ID annotatedDoc, ''content''],
                                  offset = min (5 - 2) (offset (anno_end a) - 2)\<rparr>\<rparr>))
         (filter (\<lambda>a. path (anno_start a) = [''p1'', ''content''] \<and> offset (anno_start a) < 5 \<and>
                       2 < offset (anno_end a))
            (annotations (nodes annotatedDoc)))"
    and ct: "container snippet = [TEXT_SNIPPET_ID annotatedDoc]"
    using copySelection_property [OF src _ _ len, of 2 "\<lambda>a b an. Some an" "Some ''body''"]
    by auto
  have "nodes snippet =
        [NodeData \<lparr>node_id = ''text-snippet'', node_type = ''paragraph'',
                   node_props = [(''content'', StringVal ''cde'')]\<rparr>,
         AnnoData (strong ''s1'' [''text-snippet'', ''content''] 1 3)]"
    unfolding ns by (simp add: annotatedDoc_def textNode_def strong_def)
  moreover have "container snippet = [''text-snippet'']"
    unfolding ct by (simp add: annotatedDoc_def)
  ultimately show ?thesis
    using src ret by auto
qed

subsection \<open>The transitive copy\<close>

lemma docGet_Some: "docGet doc i = Some m \<Longrightarrow> m \<in> set (nodes doc) \<and> data_id m = i"
  by (auto simp add: docGet_def find_Some_iff)





lemma copyNode_caption:
  "copyNode figureDoc captionNode =
     Some (Inr [captionNode, AnnoData (strong ''s1'' [''c1'', ''content''] 2 8)])"
  by (subst copyNode.simps)
     (simp add: figureDoc_def captionNode_def figureNode_def exampleSchema_def cascaded_def
        index_get_def onPath_def strong_def)

lemma copyNode_figure:
  "copyNode figureDoc figureNode =
     Some (Inr [captionNode, AnnoData (strong ''s1'' [''c1'', ''content''] 2 8), figureNode])"
proof -
  have get: "docGet figureDoc ''c1'' = Some captionNode"
    by (simp add: docGet_def figureDoc_def figureNode_def captionNode_def)
  have sch: "schema figureDoc (data_type figureNode) =
      [\<lparr>prop_name = ''caption'', prop_type = ''id'', prop_isArray = False,
        prop_isReference = True, prop_owner = True\<rparr>]"
    by (simp add: figureDoc_def figureNode_def exampleSchema_def)
  have tg: "refTargets figureNode \<lparr>prop_name = ''caption'', prop_type = ''id'', prop_isArray = False,
        prop_isReference = True, prop_owner = True\<rparr> = Inr [''c1'']"
    by (simp add: refTargets_def figureNode_def)
  have idx: "index_get figureDoc [data_id figureNode] None = []"
    by (simp add: index_get_def figureDoc_def figureNode_def captionNode_def onPath_def strong_def)
  show ?thesis
    by (subst copyNode.simps) (simp add: sch tg get copyNode_caption cascaded_def idx)
qed



























subsection \<open>Container selections\<close>

lemma copyProps_no_cascade:
  "\<forall>pr \<in> set prs. \<not> cascaded pr \<Longrightarrow> copyProps rec doc n prs acc = Some (Inr acc)"
  by (induction prs arbitrary: acc) simp_all

lemma copyNode_leaf:
  assumes "\<forall>pr \<in> set (schema doc (data_type n)). \<not> cascaded pr"
  shows "copyNode doc n = Some (Inr (n # map AnnoData (index_get doc [data_id n] None)))"
  by (subst copyNode.simps) (simp add: copyProps_no_cascade [OF assms])

lemma textNode_leaf: "\<forall>pr \<in> set (exampleSchema (data_type (textNode i str))). \<not> cascaded pr"
  by (simp add: exampleSchema_def textNode_def cascaded_def)

lemma copyNode_paragraphDoc:
  "copyNode paragraphDoc (textNode ''p1'' ''abcdefgh'') = Some (Inr [textNode ''p1'' ''abcdefgh''])"
proof -
  have "\<forall>pr \<in> set (schema paragraphDoc (data_type (textNode ''p1'' ''abcdefgh''))). \<not> cascaded pr"
    using textNode_leaf by (simp add: paragraphDoc_def)
  then show ?thesis
    by (simp add: copyNode_leaf) (simp add: index_get_def paragraphDoc_def textNode_def)
qed

text \<open>
  The loop over the fragments copies a node only when its id is not among the ids
  created so far, and \<open>_copyNode\<close> returns the node itself among its copies: the
  container of the snippet shows every node at most once.
\<close>

lemma copyNode_contains_node:
  assumes "copyNode doc n = Some (Inr ns)"
  shows "n \<in> set ns"
proof -
  from assms have "Option.bind (copyProps (\<lambda>m. copyNode doc m) doc n (schema doc (data_type n)) [])
      (\<lambda>r. case r of Inl err \<Rightarrow> Some (Inl err)
         | Inr ns \<Rightarrow> Some (Inr (ns @ [n] @ map AnnoData (index_get doc [data_id n] None))))
      = Some (Inr ns)"
    by (subst (asm) copyNode.simps)
  then show ?thesis
    by (auto split: bind_splits sum.splits)
qed

lemma container_fold_create:
  "container (fold (\<lambda>nodeData s. create s nodeData) nds sn) = container sn"
  by (induction nds arbitrary: sn) (simp_all add: create_def)

lemma copyFragments_shows_once:
  assumes "copyFragments doc fs created sn = Some (Inr sn')"
    and "distinct (container sn)" and "set (container sn) \<subseteq> set created"
  shows "distinct (container sn')"
  using assms
proof (induction fs arbitrary: created sn)
  case Nil
  then show ?case by simp
next
  case (Cons f fs)
  show ?case
  proof (cases "fragment_path f")
    case Nil
    with Cons.prems(1) show ?thesis by simp
  next
    case (Cons nodeId rest)
    note fp = this
    show ?thesis
    proof (cases "nodeId \<in> set created")
      case True
      with Cons.prems fp have "copyFragments doc fs created sn = Some (Inr sn')"
        by simp
      then show ?thesis
        using Cons.prems(2,3) by (rule Cons.IH)
    next
      case False
      with Cons.prems(1) fp obtain node nds where
        get: "docGet doc nodeId = Some node" and
        cp: "copyNode doc node = Some (Inr nds)" and
        rec: "copyFragments doc fs (created @ map data_id nds)
                (container_show (fold (\<lambda>nodeData s. create s nodeData) nds sn) nodeId)
              = Some (Inr sn')"
        by (auto split: option.splits bind_splits sum.splits)
      have ct: "container (container_show (fold (\<lambda>nodeData s. create s nodeData) nds sn) nodeId)
          = container sn @ [nodeId]"
        by (simp add: container_show_def container_fold_create)
      have "node \<in> set nds"
        using cp by (rule copyNode_contains_node)
      moreover have "data_id node = nodeId"
        using docGet_Some [OF get] by simp
      ultimately have "nodeId \<in> set (map data_id nds)"
        by force
      moreover have "nodeId \<notin> set (container sn)"
        using False Cons.prems(3) by auto
      ultimately have "distinct (container sn @ [nodeId])"
        and "set (container sn @ [nodeId]) \<subseteq> set (created @ map data_id nds)"
        using Cons.prems(2,3) by auto
      with rec show ?thesis
        unfolding ct [symmetric] by (rule Cons.IH)
    qed
  qed
qed

lemma container_update_delete: "update_delete sn p a b = Inr sn' \<Longrightarrow> container sn' = container sn"
  by (auto simp add: update_delete_def split: sum.splits)

lemma container_trimFirst: "trimFirst adjust sn f = Inr sn' \<Longrightarrow> container sn' = container sn"
  by (auto simp add: trimFirst_def deletedText_def split: fragment.splits sum.splits
        dest: container_update_delete)

lemma container_trimLast: "trimLast adjust doc sn f = Inr sn' \<Longrightarrow> container sn' = container sn"
  by (auto simp add: trimLast_def deletedText_def split: fragment.splits sum.splits
        dest: container_update_delete)

lemma copyContainerSelection_shows_once:
  assumes "copyContainerSelection adjust doc sel = Some (Inr sn)"
  shows "distinct (container sn)"
proof (cases "getFragments sel = []")
  case True
  with assms have "sn = createSnippet doc"
    by (simp add: copyContainerSelection_def)
  then show ?thesis
    by (simp add: createSnippet_def)
next
  case False
  with assms obtain sn1 sn2 where
    frag: "copyFragments doc (getFragments sel) [] (createSnippet doc) = Some (Inr sn1)" and
    first: "trimFirst adjust sn1 (hd (getFragments sel)) = Inr sn2" and
    last: "trimLast adjust doc sn2 (last (getFragments sel)) = Inr sn"
    by (auto simp add: copyContainerSelection_def Let_def split: bind_splits sum.splits)
  have "distinct (container sn1)"
    using frag by (rule copyFragments_shows_once) (simp_all add: createSnippet_def)
  then show ?thesis
    using container_trimFirst [OF first] container_trimLast [OF last] by simp
qed

text \<open>
  The test on \<open>created\<close> guards the node of the fragment only. \<open>_copyNode\<close> does not
  consult it: a node that an earlier fragment has copied is created again when a later
  fragment's node owns it. Here the caption \<open>c1\<close> is a fragment of its own before the
  figure \<open>f1\<close> that owns it.
\<close>

lemma copyFragments_creates_owned_again:
  "copyFragments figureDoc [NodeFragment [''c1''], NodeFragment [''f1'']] []
     (createSnippet figureDoc)
   = Some (Inr \<lparr>nodes = [captionNode, AnnoData (strong ''s1'' [''c1'', ''content''] 2 8),
                          captionNode, AnnoData (strong ''s1'' [''c1'', ''content''] 2 8),
                          figureNode],
                 container = [''c1'', ''f1''], schema = exampleSchema,
                 defaultTextType = ''paragraph'', TEXT_SNIPPET_ID = ''text-snippet''\<rparr>)"
proof -
  have getc: "docGet figureDoc ''c1'' = Some captionNode"
    by (simp add: docGet_def figureDoc_def figureNode_def captionNode_def)
  have getf: "docGet figureDoc ''f1'' = Some figureNode"
    by (simp add: docGet_def figureDoc_def figureNode_def)
  have ids: "data_id captionNode = ''c1''" "data_id figureNode = ''f1''"
    "data_id (AnnoData (strong ''s1'' [''c1'', ''content''] 2 8)) = ''s1''"
    by (simp_all add: captionNode_def figureNode_def strong_def)
  show ?thesis
    by (simp add: getc getf ids copyNode_caption copyNode_figure create_def container_show_def
          createSnippet_def)
       (simp add: figureDoc_def strong_def)
qed

text \<open>
  Claim C3 fails on the code in the case it names last. The container selection
  \<open>[2, 5)\<close> inside the one paragraph \<open>abcdefgh\<close> has the single fragment
  \<open>selection-fragment\<close> \<open>[2, 5)\<close>, which is the first and the last. The claim: the
  prefix \<open>[0, 2)\<close> and the suffix \<open>[5, 8)\<close> are deleted from the copied text, which
  leaves \<open>cde\<close>. The code deletes \<open>[0, 2)\<close> from the copy, which leaves \<open>cdefgh\<close>,
  and then deletes \<open>[5, 8)\<close>, offsets of the source text, from that shorter text: the
  copy holds \<open>cdefg\<close>.
\<close>

theorem copyContainerSelection_single_fragment:
  "copySelection adjust paragraphDoc
     (Some (ContainerSelection ''body'' [''p1'', ''content''] 2 [''p1'', ''content''] 5
        [SelectionFragment [''p1'', ''content''] 2 5] (Some ''body'')))
   = Some (Inr (Some
       \<lparr>nodes = [textNode ''p1'' ''cdefg''],
        container = [''p1''], schema = exampleSchema,
        defaultTextType = ''paragraph'', TEXT_SNIPPET_ID = ''text-snippet''\<rparr>, [CreateSnippet]))"
proof -
  have get: "docGet paragraphDoc ''p1'' = Some (textNode ''p1'' ''abcdefgh'')"
    by (simp add: docGet_def paragraphDoc_def textNode_def)
  have frag: "copyFragments paragraphDoc [SelectionFragment [''p1'', ''content''] 2 5] []
                (createSnippet paragraphDoc)
      = Some (Inr \<lparr>nodes = [textNode ''p1'' ''abcdefgh''],
        container = [''p1''], schema = exampleSchema,
        defaultTextType = ''paragraph'', TEXT_SNIPPET_ID = ''text-snippet''\<rparr>)"
    by (simp add: get copyNode_paragraphDoc create_def container_show_def createSnippet_def)
       (simp add: paragraphDoc_def)
  have first: "trimFirst adjust \<lparr>nodes = [textNode ''p1'' ''abcdefgh''],
        container = [''p1''], schema = exampleSchema,
        defaultTextType = ''paragraph'', TEXT_SNIPPET_ID = ''text-snippet''\<rparr>
        (SelectionFragment [''p1'', ''content''] 2 5)
      = Inr \<lparr>nodes = [textNode ''p1'' ''cdefgh''],
        container = [''p1''], schema = exampleSchema,
        defaultTextType = ''paragraph'', TEXT_SNIPPET_ID = ''text-snippet''\<rparr>"
    by (simp add: trimFirst_def update_delete_def getText_def docGet_def deleteRange_def
          deletedText_def textNode_def)
  have last: "trimLast adjust paragraphDoc \<lparr>nodes = [textNode ''p1'' ''cdefgh''],
        container = [''p1''], schema = exampleSchema,
        defaultTextType = ''paragraph'', TEXT_SNIPPET_ID = ''text-snippet''\<rparr>
        (SelectionFragment [''p1'', ''content''] 2 5)
      = Inr \<lparr>nodes = [textNode ''p1'' ''cdefg''],
        container = [''p1''], schema = exampleSchema,
        defaultTextType = ''paragraph'', TEXT_SNIPPET_ID = ''text-snippet''\<rparr>"
    by (simp add: trimLast_def update_delete_def getText_def docGet_def deleteRange_def
          deletedText_def paragraphDoc_def textNode_def)
  show ?thesis
    by (simp add: copySelection_def copyContainerSelection_def returned_def frag first last
          del: copyFragments.simps)
qed

text \<open>
  The sibling path, on the same range of the same text: the property selection
  \<open>[2, 5)\<close> is copied as \<open>cde\<close>.
\<close>

lemma copyPropertySelection_same_range:
  "copySelection adjust paragraphDoc (Some (PropertySelection [''p1'', ''content''] 2 5 (Some ''body'')))
   = Some (Inr (Some
       \<lparr>nodes = [textNode ''text-snippet'' ''cde''],
        container = [''text-snippet''], schema = exampleSchema,
        defaultTextType = ''paragraph'', TEXT_SNIPPET_ID = ''text-snippet''\<rparr>, [CreateSnippet]))"
  by (simp add: copySelection_def returned_def copyPropertySelection_def getText_def docGet_def
        paragraphDoc_def substring_def index_get_def create_def container_show_def
        createSnippet_def textNode_def)

text \<open>
  Where the first and the last fragment are fragments of two different properties, the
  two deletions do not meet: of the paragraphs \<open>abcdefgh\<close> and \<open>ijklmnop\<close>, selected
  from offset 2 of the first to offset 5 of the second, the copy holds \<open>cdefgh\<close> and
  \<open>ijklm\<close>, each node once, in the order of the fragments.
\<close>

lemma copyContainerSelection_two_fragments:
  "copySelection adjust twoParagraphs
     (Some (ContainerSelection ''body'' [''p1'', ''content''] 2 [''p2'', ''content''] 5
        [SelectionFragment [''p1'', ''content''] 2 8, SelectionFragment [''p2'', ''content''] 0 5]
        (Some ''body'')))
   = Some (Inr (Some
       \<lparr>nodes = [textNode ''p1'' ''cdefgh'', textNode ''p2'' ''ijklm''],
        container = [''p1'', ''p2''], schema = exampleSchema,
        defaultTextType = ''paragraph'', TEXT_SNIPPET_ID = ''text-snippet''\<rparr>, [CreateSnippet]))"
proof -
  have get1: "docGet twoParagraphs ''p1'' = Some (textNode ''p1'' ''abcdefgh'')"
    by (simp add: docGet_def twoParagraphs_def textNode_def)
  have get2: "docGet twoParagraphs ''p2'' = Some (textNode ''p2'' ''ijklmnop'')"
    by (simp add: docGet_def twoParagraphs_def textNode_def)
  have leaf: "\<forall>pr \<in> set (schema twoParagraphs (data_type (textNode i str))). \<not> cascaded pr" for i str
    using textNode_leaf by (simp add: twoParagraphs_def)
  have idx: "index_get twoParagraphs q None = []" for q
    by (simp add: index_get_def twoParagraphs_def textNode_def)
  have cp: "copyNode twoParagraphs (textNode i str) = Some (Inr [textNode i str])" for i str
    by (simp add: copyNode_leaf [OF leaf] idx)
  have ids: "data_id (textNode i str) = i" for i str
    by (simp add: textNode_def)
  have frag: "copyFragments twoParagraphs
        [SelectionFragment [''p1'', ''content''] 2 8, SelectionFragment [''p2'', ''content''] 0 5] []
        (createSnippet twoParagraphs)
      = Some (Inr \<lparr>nodes = [textNode ''p1'' ''abcdefgh'', textNode ''p2'' ''ijklmnop''],
        container = [''p1'', ''p2''], schema = exampleSchema,
        defaultTextType = ''paragraph'', TEXT_SNIPPET_ID = ''text-snippet''\<rparr>)"
    by (simp add: get1 get2 cp ids create_def container_show_def createSnippet_def)
       (simp add: twoParagraphs_def)
  have first: "trimFirst adjust \<lparr>nodes = [textNode ''p1'' ''abcdefgh'', textNode ''p2'' ''ijklmnop''],
        container = [''p1'', ''p2''], schema = exampleSchema,
        defaultTextType = ''paragraph'', TEXT_SNIPPET_ID = ''text-snippet''\<rparr>
        (SelectionFragment [''p1'', ''content''] 2 8)
      = Inr \<lparr>nodes = [textNode ''p1'' ''cdefgh'', textNode ''p2'' ''ijklmnop''],
        container = [''p1'', ''p2''], schema = exampleSchema,
        defaultTextType = ''paragraph'', TEXT_SNIPPET_ID = ''text-snippet''\<rparr>"
    by (simp add: trimFirst_def update_delete_def getText_def docGet_def deleteRange_def
          deletedText_def textNode_def)
  have last: "trimLast adjust twoParagraphs
        \<lparr>nodes = [textNode ''p1'' ''cdefgh'', textNode ''p2'' ''ijklmnop''],
        container = [''p1'', ''p2''], schema = exampleSchema,
        defaultTextType = ''paragraph'', TEXT_SNIPPET_ID = ''text-snippet''\<rparr>
        (SelectionFragment [''p2'', ''content''] 0 5)
      = Inr \<lparr>nodes = [textNode ''p1'' ''cdefgh'', textNode ''p2'' ''ijklm''],
        container = [''p1'', ''p2''], schema = exampleSchema,
        defaultTextType = ''paragraph'', TEXT_SNIPPET_ID = ''text-snippet''\<rparr>"
    by (simp add: trimLast_def update_delete_def getText_def docGet_def deleteRange_def
          deletedText_def twoParagraphs_def textNode_def)
  show ?thesis
    by (simp add: copySelection_def copyContainerSelection_def returned_def frag first last
          del: copyFragments.simps)
qed

section \<open>Facts about the state of isolated regions\<close>

lemma map_of_resolveRegions:
  "map_of (resolveRegions covered sel regions) region =
     (if region \<in> set regions then Some (regionMode covered sel region) else None)"
  by (induction regions) (simp_all add: resolveRegions_def)

lemma tokenize_sn: "tokenize ''body/sn'' = [''body'', ''sn'']"
  by (simp add: tokenize_def)

lemma tokenize_sn2: "tokenize ''body/sn2'' = [''body'', ''sn2'']"
  by (simp add: tokenize_def)

lemma tokenize_sn2_title: "tokenize ''body/sn2/sn2.title'' = [''body'', ''sn2'', ''sn2.title'']"
  by (simp add: tokenize_def)

lemma regionMode_sn:
  "surfaceId sel = Some ''body/sn2/sn2.title'' \<Longrightarrow> regionMode covered sel ''body/sn'' = NotSelected"
  by (cases sel)
     (simp_all add: regionMode_def tokenize_sn tokenize_sn2_title isFocused_def isStrictPrefix_def
        isCoSelectedBy_def)

lemma regionMode_sn2:
  "surfaceId sel = Some ''body/sn2/sn2.title'' \<Longrightarrow> regionMode covered sel ''body/sn2'' = Focused"
  by (simp add: regionMode_def tokenize_sn2 tokenize_sn2_title isFocused_def)

lemma isFocused_prefix: "isFocused r s \<Longrightarrow> take (length r) s = r"
proof -
  assume "isFocused r s"
  then consider "r = s" | "s \<noteq> []" "butlast s = r"
    by (auto simp add: isFocused_def)
  then show ?thesis
  proof cases
    case 1
    then show ?thesis by simp
  next
    case 2
    have "take (length (butlast s)) s = butlast s"
      by (simp add: butlast_conv_take)
    with 2 show ?thesis by simp
  qed
qed

lemma focus_is_token_prefix:
  assumes "regionMode covered sel region = Focused \<or> regionMode covered sel region = CoFocused"
  shows "\<exists>surface. surfaceId sel = Some surface \<and>
     take (length (tokenize region)) (tokenize surface) = tokenize region"
proof (cases "surfaceId sel")
  case None
  with assms show ?thesis by (simp add: regionMode_def)
next
  case (Some surface)
  have "isFocused (tokenize region) (tokenize surface) \<or>
        isStrictPrefix (tokenize region) (tokenize surface)"
    using assms Some by (simp add: regionMode_def Let_def split: if_splits)
  then have "take (length (tokenize region)) (tokenize surface) = tokenize region"
    by (auto simp add: isStrictPrefix_def dest: isFocused_prefix)
  with Some show ?thesis by simp
qed

text \<open>
  Claim C9. When the selection is null, the resolver reports every region as
  not-selected, whatever the regions are.
\<close>

theorem regions_null_selection:
  "resolveRegions covered NullSelection regions = map (\<lambda>region. (region, NotSelected)) regions \<and>
   regionMode covered NullSelection region = NotSelected"
  by (simp add: resolveRegions_def regionMode_def)

text \<open>
  Claim C1. Let the regions contain both \<open>body/sn\<close> and \<open>body/sn2\<close>, and let the
  owning surface of the selection be \<open>body/sn2/sn2.title\<close>. Then the resolver reports
  \<open>body/sn\<close> as not-selected and \<open>body/sn2\<close> as focused, although \<open>body/sn\<close> is a
  prefix of the surface path as a string. Containment is decided on tokens: whenever a
  region is reported focused or co-focused, the tokens of its path are a prefix of the
  tokens of the owning surface's path.
\<close>

theorem regions_prefix_collision:
  assumes "surfaceId sel = Some ''body/sn2/sn2.title''"
    and "''body/sn'' \<in> set regions" and "''body/sn2'' \<in> set regions"
  shows "map_of (resolveRegions covered sel regions) ''body/sn'' = Some NotSelected \<and>
     map_of (resolveRegions covered sel regions) ''body/sn2'' = Some Focused \<and>
     take (length ''body/sn'') ''body/sn2/sn2.title'' = ''body/sn'' \<and>
     (regionMode covered sel2 region = Focused \<or> regionMode covered sel2 region = CoFocused \<longrightarrow>
        (\<exists>surface. surfaceId sel2 = Some surface \<and>
           take (length (tokenize region)) (tokenize surface) = tokenize region))"
proof -
  have "map_of (resolveRegions covered sel regions) ''body/sn'' = Some NotSelected"
    using assms(2) regionMode_sn [OF assms(1)] by (simp add: map_of_resolveRegions)
  moreover have "map_of (resolveRegions covered sel regions) ''body/sn2'' = Some Focused"
    using assms(3) regionMode_sn2 [OF assms(1)] by (simp add: map_of_resolveRegions)
  moreover have "take (length ''body/sn'') ''body/sn2/sn2.title'' = ''body/sn''"
    by simp
  ultimately show ?thesis
    using focus_is_token_prefix [of covered sel2 region] by blast
qed

text \<open>
  The selection of the regression test: a cursor in the title of \<open>sn2\<close>, owned by the
  surface \<open>body/sn2/sn2.title\<close>, with the two regions \<open>body/sn\<close> and \<open>body/sn2\<close>.
\<close>

theorem regions_prefix_collision_witness:
  "surfaceId (PropertySelection [''sn2'', ''title''] 0 0 (Some ''body/sn2/sn2.title''))
     = Some ''body/sn2/sn2.title'' \<and>
   ''body/sn'' \<in> set [''body/sn'', ''body/sn2''] \<and>
   ''body/sn2'' \<in> set [''body/sn'', ''body/sn2''] \<and>
   resolveRegions [] (PropertySelection [''sn2'', ''title''] 0 0 (Some ''body/sn2/sn2.title''))
       [''body/sn'', ''body/sn2'']
     = [(''body/sn'', NotSelected), (''body/sn2'', Focused)] \<and>
   take (length (tokenize ''body/sn2'')) (tokenize ''body/sn2/sn2.title'') = tokenize ''body/sn2''"
proof -
  let ?sel = "PropertySelection [''sn2'', ''title''] 0 0 (Some ''body/sn2/sn2.title'')"
  let ?regions = "[''body/sn'', ''body/sn2'']"
  have sf: "surfaceId ?sel = Some ''body/sn2/sn2.title''"
    by simp
  have m1: "''body/sn'' \<in> set ?regions" and m2: "''body/sn2'' \<in> set ?regions"
    by simp_all
  note fact = regions_prefix_collision [OF sf m1 m2, of "[]" ?sel "''body/sn2''"]
  have modes: "regionMode [] ?sel ''body/sn'' = NotSelected \<and> regionMode [] ?sel ''body/sn2'' = Focused"
    using fact by (simp add: map_of_resolveRegions)
  then have "resolveRegions [] ?sel ?regions = [(''body/sn'', NotSelected), (''body/sn2'', Focused)]"
    by (simp add: resolveRegions_def)
  moreover have "take (length (tokenize ''body/sn2'')) (tokenize ''body/sn2/sn2.title'')
      = tokenize ''body/sn2''"
    using fact modes by simp
  ultimately show ?thesis
    using sf m1 m2 by blast
qed

text \<open>
  The other tests of \<open>IsolatedNode\<close> on the nested containers (regions \<open>body/c1\<close> and
  \<open>body/c1/c1/c2\<close>): a cursor in \<open>body\<close>, the node selection of \<open>c1\<close>, a container
  selection that spans \<open>c1\<close>, the focus in \<open>body/c1/c1\<close>, and the focus in
  \<open>body/c1/c1/c2/c2\<close>.
\<close>

lemma tokenize_nested:
  "tokenize ''body'' = [''body'']"
  "tokenize ''body/c1'' = [''body'', ''c1'']"
  "tokenize ''body/c1/c1'' = [''body'', ''c1'', ''c1'']"
  "tokenize ''body/c1/c1/c2'' = [''body'', ''c1'', ''c1'', ''c2'']"
  "tokenize ''body/c1/c1/c2/c2'' = [''body'', ''c1'', ''c1'', ''c2'', ''c2'']"
  by (simp_all add: tokenize_def)

lemma regions_of_the_tests:
  "resolveRegions [] (PropertySelection [''p1'', ''content''] 0 0 (Some ''body''))
       [''body/c1'', ''body/c1/c1/c2'']
     = [(''body/c1'', NotSelected), (''body/c1/c1/c2'', NotSelected)]"
  "resolveRegions [] (NodeSelection ''body'' ''c1'' Full (Some ''body''))
       [''body/c1'', ''body/c1/c1/c2'']
     = [(''body/c1'', Selected), (''body/c1/c1/c2'', NotSelected)]"
  "resolveRegions [''p1'', ''c1'', ''p2'']
       (ContainerSelection ''body'' [''p1'', ''content''] 1 [''p2'', ''content''] 2 [] (Some ''body''))
       [''body/c1'', ''body/c1/c1/c2'']
     = [(''body/c1'', CoSelected), (''body/c1/c1/c2'', NotSelected)]"
  "resolveRegions [] (PropertySelection [''c1_p1'', ''content''] 0 0 (Some ''body/c1/c1''))
       [''body/c1'', ''body/c1/c1/c2'']
     = [(''body/c1'', Focused), (''body/c1/c1/c2'', NotSelected)]"
  "resolveRegions [] (PropertySelection [''c2_p1'', ''content''] 0 0 (Some ''body/c1/c1/c2/c2''))
       [''body/c1'', ''body/c1/c1/c2'']
     = [(''body/c1'', CoFocused), (''body/c1/c1/c2'', Focused)]"
  by (simp_all add: resolveRegions_def regionMode_def tokenize_nested isFocused_def
        isStrictPrefix_def isCoSelectedBy_def)

end
